theory Spec2Isabelle
  imports Main "HOL-Library.Word" "HOL-Library.Sublist"
begin

unbundle bit_operations_syntax

section \<open>The kcl_exec resource of terraform-provider-kclx\<close>

text \<open>
  The development embeds \<^verbatim>\<open>internal/provider/kcl_exec_resource.go\<close>: the methods
  \<^verbatim>\<open>Create\<close> and \<^verbatim>\<open>Update\<close> of \<^verbatim>\<open>KclExecResource\<close>. Go strings are byte
  strings (\<open>string\<close>, a list of 8-bit characters), \<^verbatim>\<open>time.Duration\<close> is a signed
  64-bit count of nanoseconds (\<open>64 word\<close>, read with \<open>sint\<close>), and everything the
  method asks of its surroundings (the plugin framework's decoding, the file system, the
  process environment, the external tool) is an explicit argument.
\<close>

subsection \<open>Diagnostics\<close>

datatype severity = SeverityError | SeverityWarning

record diagnostic =
  severity :: severity
  summary :: string
  detail :: string

type_synonym Diagnostics = "diagnostic list"

definition HasError :: "Diagnostics \<Rightarrow> bool" where
  "HasError ds = list_ex (\<lambda>d. severity d = SeverityError) ds"

definition ErrorDiagnostic :: "string \<Rightarrow> string \<Rightarrow> diagnostic" where
  "ErrorDiagnostic s d = \<lparr>severity = SeverityError, summary = s, detail = d\<rparr>"

subsection \<open>Attribute values of the plugin framework\<close>

text \<open>
  \<^verbatim>\<open>types.String\<close> and \<^verbatim>\<open>types.Int64\<close> are null, unknown or known;
  \<^verbatim>\<open>ValueString\<close> and \<^verbatim>\<open>ValueInt64\<close> give the zero value unless the attribute is known,
  and \<^verbatim>\<open>IsNull\<close> holds of the null value only.
\<close>

datatype tf_string = StringNull | StringUnknown | StringValue string

fun ValueString :: "tf_string \<Rightarrow> string" where
  "ValueString (StringValue s) = s"
| "ValueString _ = []"

datatype tf_int64 = Int64Null | Int64Unknown | Int64Value "64 word"

fun ValueInt64 :: "tf_int64 \<Rightarrow> 64 word" where
  "ValueInt64 (Int64Value v) = v"
| "ValueInt64 _ = 0"

fun Int64IsNull :: "tf_int64 \<Rightarrow> bool" where
  "Int64IsNull Int64Null = True"
| "Int64IsNull _ = False"

text \<open>
  \<^verbatim>\<open>types.List\<close> and \<^verbatim>\<open>types.Map\<close> are read through \<^verbatim>\<open>IsNull\<close> and
  \<^verbatim>\<open>ElementsAs\<close> only. \<^verbatim>\<open>ElementsAs\<close> is code of the framework: a value that is not
  null carries what the call yields on it, the diagnostics and the decoded Go value. A
  decoded \<^verbatim>\<open>map[string]string\<close> is the list of its entries in the order in which
  \<^verbatim>\<open>range\<close> visits them (an order the Go runtime chooses); its keys are distinct.
\<close>

datatype tf_list = ListNull | ListValue Diagnostics "string list"

datatype tf_map = MapNull | MapValue Diagnostics "(string \<times> string) list"

record KclExecResourceModel =
  ID :: tf_string
  SourceDir :: tf_string
  Output :: tf_string
  Args :: tf_list
  Triggers :: tf_map
  Timeout :: tf_int64
  Environment :: tf_map

subsection \<open>Provider, requests and responses\<close>

record kclProvider =
  KclPath :: string
  version :: string

record KclExecResource =
  provider :: "kclProvider option"

text \<open>
  \<^verbatim>\<open>req.Plan.Get(ctx, &plan)\<close> is code of the framework too: the request carries the
  diagnostics and the model that the call yields.
\<close>

record CreateRequest =
  PlanGet_diags :: Diagnostics
  PlanGet_plan :: KclExecResourceModel

record Response =
  Diagnostics :: Diagnostics
  State :: "KclExecResourceModel option"

definition AddError :: "Response \<Rightarrow> string \<Rightarrow> string \<Rightarrow> Response" where
  "AddError resp s d = resp\<lparr>Diagnostics := Diagnostics resp @ [ErrorDiagnostic s d]\<rparr>"

definition Append :: "Response \<Rightarrow> Diagnostics \<Rightarrow> Response" where
  "Append resp ds = resp\<lparr>Diagnostics := Diagnostics resp @ ds\<rparr>"

subsection \<open>Formatting: \<^verbatim>\<open>strings.Join\<close>, the verb \<^verbatim>\<open>%v\<close>, \<^verbatim>\<open>strconv.Itoa\<close>\<close>

fun Join :: "string list \<Rightarrow> string \<Rightarrow> string" where
  "Join [] sep = []"
| "Join [x] sep = x"
| "Join (x # y # ys) sep = x @ sep @ Join (y # ys) sep"

text \<open>\<^verbatim>\<open>%v\<close> prints a slice of strings as its elements, separated by one space, in brackets.\<close>

definition Sprint_strings :: "string list \<Rightarrow> string" where
  "Sprint_strings xs = ''['' @ Join xs '' '' @ '']''"

definition digit_char :: "nat \<Rightarrow> char" where
  "digit_char n = ''0123456789'' ! (n mod 10)"

fun Itoa :: "nat \<Rightarrow> string" where
  "Itoa n = (if n < 10 then [digit_char n] else Itoa (n div 10) @ [digit_char n])"

declare Itoa.simps [simp del]

subsection \<open>\<^verbatim>\<open>strings.TrimSpace\<close>\<close>

text \<open>
  \<^verbatim>\<open>strings.TrimSpace\<close> removes from both ends of a string every rune that
  \<^verbatim>\<open>unicode.IsSpace\<close> accepts. On the bytes of the string these are the UTF-8 encodings
  of the white space code points: tab, line feed, vertical tab, form feed, carriage
  return, space, U+0085, U+00A0, U+1680, U+2000 to U+200A, U+2028, U+2029, U+202F, U+205F
  and U+3000. A byte that begins no such encoding (an invalid one too) stops the trimming.
\<close>

definition space_runes :: "string list" where
  "space_runes =
     [[CHR 0x09], [CHR 0x0A], [CHR 0x0B], [CHR 0x0C], [CHR 0x0D], [CHR 0x20],
      [CHR 0xC2, CHR 0x85], [CHR 0xC2, CHR 0xA0], [CHR 0xE1, CHR 0x9A, CHR 0x80],
      [CHR 0xE2, CHR 0x80, CHR 0x80], [CHR 0xE2, CHR 0x80, CHR 0x81],
      [CHR 0xE2, CHR 0x80, CHR 0x82], [CHR 0xE2, CHR 0x80, CHR 0x83],
      [CHR 0xE2, CHR 0x80, CHR 0x84], [CHR 0xE2, CHR 0x80, CHR 0x85],
      [CHR 0xE2, CHR 0x80, CHR 0x86], [CHR 0xE2, CHR 0x80, CHR 0x87],
      [CHR 0xE2, CHR 0x80, CHR 0x88], [CHR 0xE2, CHR 0x80, CHR 0x89],
      [CHR 0xE2, CHR 0x80, CHR 0x8A], [CHR 0xE2, CHR 0x80, CHR 0xA8],
      [CHR 0xE2, CHR 0x80, CHR 0xA9], [CHR 0xE2, CHR 0x80, CHR 0xAF],
      [CHR 0xE2, CHR 0x81, CHR 0x9F], [CHR 0xE3, CHR 0x80, CHR 0x80]]"

definition leading_space :: "string \<Rightarrow> nat" where
  "leading_space s =
     (case find (\<lambda>r. prefix r s) space_runes of None \<Rightarrow> 0 | Some r \<Rightarrow> length r)"

definition trailing_space :: "string \<Rightarrow> nat" where
  "trailing_space s =
     (case find (\<lambda>r. suffix r s) space_runes of None \<Rightarrow> 0 | Some r \<Rightarrow> length r)"

function TrimLeftSpace :: "string \<Rightarrow> string" where
  "TrimLeftSpace s =
     (if leading_space s = 0 then s else TrimLeftSpace (drop (leading_space s) s))"
  by pat_completeness auto
termination
proof (relation "measure length")
  fix s :: string
  assume "leading_space s \<noteq> 0"
  moreover have "leading_space [] = 0"
    by (simp add: leading_space_def space_runes_def)
  ultimately have "s \<noteq> []" by auto
  with \<open>leading_space s \<noteq> 0\<close> show "(drop (leading_space s) s, s) \<in> measure length"
    by simp
qed simp

function TrimRightSpace :: "string \<Rightarrow> string" where
  "TrimRightSpace s =
     (if trailing_space s = 0 then s
      else TrimRightSpace (take (length s - trailing_space s) s))"
  by pat_completeness auto
termination
proof (relation "measure length")
  fix s :: string
  assume "trailing_space s \<noteq> 0"
  moreover have "trailing_space [] = 0"
    by (simp add: trailing_space_def space_runes_def)
  ultimately have "s \<noteq> []" by auto
  with \<open>trailing_space s \<noteq> 0\<close>
  show "(take (length s - trailing_space s) s, s) \<in> measure length"
    by simp
qed simp

declare TrimLeftSpace.simps [simp del] TrimRightSpace.simps [simp del]

definition TrimSpace :: "string \<Rightarrow> string" where
  "TrimSpace s = TrimRightSpace (TrimLeftSpace s)"

subsection \<open>\<^verbatim>\<open>hex.EncodeToString\<close>\<close>

definition hex_digit :: "nat \<Rightarrow> char" where
  "hex_digit n = ''0123456789abcdef'' ! (n mod 16)"

definition EncodeToString :: "8 word list \<Rightarrow> string" where
  "EncodeToString bs =
     concat (map (\<lambda>b. [hex_digit (unat (drop_bit 4 b)), hex_digit (unat (b AND 0x0f))]) bs)"

subsection \<open>The surroundings: file system, environment, the external tool\<close>

text \<open>
  \<^verbatim>\<open>filepath.Abs\<close> gives an absolute path or an error. Of the result of
  \<^verbatim>\<open>os.Stat\<close> only \<^verbatim>\<open>os.IsNotExist\<close> is asked. The path is a directory; it is
  something else that exists; it is absent and the call says so (\<^verbatim>\<open>ENOENT\<close>); it is
  absent because a component before its last is not a directory (\<^verbatim>\<open>ENOTDIR\<close>); or the
  call failed for another reason (no permission, say). \<^verbatim>\<open>os.IsNotExist\<close> holds of
  \<^verbatim>\<open>ENOENT\<close> only.
\<close>

datatype stat_result =
  StatDirectory | StatFile | StatNotExist | StatNotDir | StatError string

fun IsNotExist :: "stat_result \<Rightarrow> bool" where
  "IsNotExist StatNotExist = True"
| "IsNotExist _ = False"

text \<open>
  A started process is a script of what it does when left alone: it writes bytes to its
  standard output or standard error, lets nanoseconds pass, exits with a status, or never
  exits. \<^verbatim>\<open>CombinedOutput\<close> gives both streams one buffer, so the captured output is
  the bytes of the writes in the order of the script.
\<close>

datatype stream = Stdout | Stderr

datatype process =
  Exit nat
  | Hang
  | Sleep nat process
  | Write stream string process

datatype command = NotFound string | CannotStart string | Started process

datatype exec_error =
  LookPathError string | DeadlineExceeded | StartError string | ExitError nat | SignalKilled

fun Error :: "exec_error \<Rightarrow> string" where
  "Error (LookPathError e) = e"
| "Error DeadlineExceeded = ''context deadline exceeded''"
| "Error (StartError e) = e"
| "Error (ExitError n) = ''exit status '' @ Itoa n"
| "Error SignalKilled = ''signal: killed''"

type_synonym Duration = "64 word"

definition Second :: Duration where
  "Second = 1000000000"

text \<open>
  \<open>run d p\<close>: the process \<open>p\<close> under a context that expires \<open>d\<close> nanoseconds from
  now. A process that has not exited when the context expires is killed, and what it
  wrote until then is the output.
\<close>

fun run :: "int \<Rightarrow> process \<Rightarrow> string \<times> exec_error option" where
  "run d (Exit n) = ([], if n = 0 then None else Some (ExitError n))"
| "run d Hang = ([], Some SignalKilled)"
| "run d (Sleep n p) = (if int n < d then run (d - int n) p else ([], Some SignalKilled))"
| "run d (Write s bytes p) = (case run d p of (out, e) \<Rightarrow> (bytes @ out, e))"

text \<open>
  \<^verbatim>\<open>exec.CommandContext(ctx, name, args...)\<close> followed by \<^verbatim>\<open>CombinedOutput()\<close>, with
  \<open>ctx\<close> made by \<^verbatim>\<open>context.WithTimeout(ctx, timeout)\<close> from a context without a
  deadline: a command that was not found is reported first; a context made with a
  timeout that is not positive has expired already, and nothing is started under it.
\<close>

definition CombinedOutput :: "command \<Rightarrow> Duration \<Rightarrow> string \<times> exec_error option" where
  "CombinedOutput c timeout =
     (case c of
        NotFound e \<Rightarrow> ([], Some (LookPathError e))
      | CannotStart e \<Rightarrow>
          if sint timeout \<le> 0 then ([], Some DeadlineExceeded) else ([], Some (StartError e))
      | Started p \<Rightarrow>
          if sint timeout \<le> 0 then ([], Some DeadlineExceeded) else run (sint timeout) p)"

text \<open>
  \<^verbatim>\<open>sha256.Sum256\<close> is code of the Go standard library, not of this repository: the
  digest function is a field of the surroundings, from the bytes of a string to the bytes
  of its digest. That a digest has 32 bytes (the Go type \<^verbatim>\<open>[32]byte\<close>) is a premise
  where a property needs it.
\<close>

record world =
  filepath_Abs :: "string \<Rightarrow> string + string"
  os_Stat :: "string \<Rightarrow> stat_result"
  os_Environ :: "string list"
  sha256_Sum256 :: "string \<Rightarrow> 8 word list"
  exec_Command :: "string \<Rightarrow> string list \<Rightarrow> string \<Rightarrow> string list \<Rightarrow> command"

text \<open>The calls that reach outside the process, in the order they are made.\<close>

datatype call =
  CallAbs string
  | CallStat string
  | CallEnviron
  | CallCommand string "string list" string "string list" Duration

subsection \<open>Create\<close>

text \<open>
  \<^verbatim>\<open>Create\<close> is one function in the source; it is cut here at its four comments into
  \<open>Create\<close> (decoding the plan, resolving and checking the source directory, choosing
  the command), \<open>Create_args\<close>, \<open>Create_environment\<close> and \<open>Create_exec\<close> (timeout,
  execution, identifier, state), each ending in the next. Every \<^verbatim>\<open>return\<close> of the source
  is a branch that gives the response back as it stands. The response and the list of
  outside calls made so far are passed along. Logging through \<^verbatim>\<open>tflog\<close> is left out.
\<close>

definition kclCommand_of :: "KclExecResource \<Rightarrow> string" where
  "kclCommand_of r =
     (case provider r of
        None \<Rightarrow> ''kcl''
      | Some p \<Rightarrow> if KclPath p \<noteq> [] then KclPath p else ''kcl'')"

text \<open>\<^verbatim>\<open>fmt.Sprintf("%s=%s", k, v)\<close>\<close>

definition env_entry :: "string \<times> string \<Rightarrow> string" where
  "env_entry kv = fst kv @ ''='' @ snd kv"

definition timeout_of :: "KclExecResourceModel \<Rightarrow> Duration" where
  "timeout_of plan =
     (if \<not> Int64IsNull (Timeout plan) then ValueInt64 (Timeout plan) * Second
      else 300 * Second)"

text \<open>\<^verbatim>\<open>fmt.Sprintf("%s|%s|%v|%v", absPath, kclCommand, args, envVars)\<close>\<close>

definition idInput :: "string \<Rightarrow> string \<Rightarrow> string list \<Rightarrow> string list \<Rightarrow> string" where
  "idInput absPath kclCommand args envVars =
     absPath @ ''|'' @ kclCommand @ ''|'' @ Sprint_strings args @ ''|'' @ Sprint_strings envVars"

text \<open>\<^verbatim>\<open>hex.EncodeToString(hash[:16])\<close> of the digest of \<open>idInput\<close>\<close>

definition generate_id ::
  "world \<Rightarrow> string \<Rightarrow> string \<Rightarrow> string list \<Rightarrow> string list \<Rightarrow> string" where
  "generate_id w absPath kclCommand args envVars =
     EncodeToString (take 16 (sha256_Sum256 w (idInput absPath kclCommand args envVars)))"

text \<open>
  \<^verbatim>\<open>resp.State.Set(ctx, plan)\<close> stores the model. The model is a struct of framework
  values of the schema's own types, for which the call reports nothing.
\<close>

definition State_Set :: "Response \<Rightarrow> KclExecResourceModel \<Rightarrow> Response" where
  "State_Set resp plan = resp\<lparr>State := Some plan\<rparr>"

definition ExecutionFailed_detail :: "string \<Rightarrow> string list \<Rightarrow> exec_error \<Rightarrow> string \<Rightarrow> string" where
  "ExecutionFailed_detail kclCommand args err output =
     ''Command: '' @ kclCommand @ '' '' @ Join args '' '' @ [CHR 0x0A] @
     ''Error: '' @ Error err @ [CHR 0x0A] @
     ''Output: '' @ output"

definition Create_exec ::
  "world \<Rightarrow> KclExecResourceModel \<Rightarrow> string \<Rightarrow> string \<Rightarrow> string list \<Rightarrow> string list \<Rightarrow>
   Response \<Rightarrow> call list \<Rightarrow> Response \<times> call list" where
  "Create_exec w plan absPath kclCommand args envVars resp calls =
     (let timeout = timeout_of plan;
          calls = calls @ [CallCommand kclCommand args absPath envVars timeout]
      in case CombinedOutput (exec_Command w kclCommand args absPath envVars) timeout of
           (output, Some err) \<Rightarrow>
             (AddError resp ''KCL Execution Failed''
                (ExecutionFailed_detail kclCommand args err output), calls)
         | (output, None) \<Rightarrow>
             (State_Set resp
                (plan\<lparr>ID := StringValue (generate_id w absPath kclCommand args envVars),
                      Output := StringValue (TrimSpace output)\<rparr>), calls))"

definition Create_environment ::
  "world \<Rightarrow> KclExecResourceModel \<Rightarrow> string \<Rightarrow> string \<Rightarrow> string list \<Rightarrow>
   Response \<Rightarrow> call list \<Rightarrow> Response \<times> call list" where
  "Create_environment w plan absPath kclCommand args resp calls =
     (let envVars = os_Environ w;
          calls = calls @ [CallEnviron]
      in case Environment plan of
           MapNull \<Rightarrow> Create_exec w plan absPath kclCommand args envVars resp calls
         | MapValue diags envMap \<Rightarrow>
             let resp = Append resp diags
             in if HasError (Diagnostics resp) then (resp, calls)
                else Create_exec w plan absPath kclCommand args
                       (envVars @ map env_entry envMap) resp calls)"

definition Create_args ::
  "world \<Rightarrow> KclExecResourceModel \<Rightarrow> string \<Rightarrow> string \<Rightarrow>
   Response \<Rightarrow> call list \<Rightarrow> Response \<times> call list" where
  "Create_args w plan absPath kclCommand resp calls =
     (case Args plan of
        ListNull \<Rightarrow> Create_environment w plan absPath kclCommand [] resp calls
      | ListValue diags args \<Rightarrow>
          let resp = Append resp diags
          in if HasError (Diagnostics resp) then (resp, calls)
             else Create_environment w plan absPath kclCommand args resp calls)"

definition Create ::
  "KclExecResource \<Rightarrow> world \<Rightarrow> CreateRequest \<Rightarrow> Response \<Rightarrow> Response \<times> call list" where
  "Create r w req resp =
     (let plan = PlanGet_plan req;
          resp = Append resp (PlanGet_diags req)
      in if HasError (Diagnostics resp) then (resp, [])
         else
           let sourceDir = ValueString (SourceDir plan)
           in case filepath_Abs w sourceDir of
                Inl err \<Rightarrow>
                  (AddError resp ''Path Resolution Error''
                     (''Invalid source directory path: '' @ err), [CallAbs sourceDir])
              | Inr absPath \<Rightarrow>
                  if IsNotExist (os_Stat w absPath)
                  then (AddError resp ''Directory Not Found''
                          (''Source directory does not exist: '' @ absPath),
                        [CallAbs sourceDir, CallStat absPath])
                  else Create_args w plan absPath (kclCommand_of r) resp
                         [CallAbs sourceDir, CallStat absPath])"

text \<open>The response the framework hands to \<^verbatim>\<open>Create\<close>: no diagnostics, no state.\<close>

definition new_Response :: Response where
  "new_Response = \<lparr>Diagnostics = [], State = None\<rparr>"

subsection \<open>Update\<close>

text \<open>
  \<^verbatim>\<open>Update\<close> reads nothing of its request: it adds one error to the response and
  returns. The response it is given holds the prior state.
\<close>

definition Update :: "KclExecResource \<Rightarrow> 'req \<Rightarrow> Response \<Rightarrow> Response" where
  "Update r req resp =
     AddError resp ''Update Not Supported''
       ''KCL execution resource does not support updates - changes require replacement''"

subsection \<open>The error taxonomy\<close>

text \<open>
  The specification names five kinds of error; the code tells its diagnostics apart by
  their summary line. \<open>error_kind\<close> reads a diagnostic of the resource as the kind the
  summary stands for.
\<close>

datatype error_kind =
  PathResolutionError | DirectoryNotFoundError | TimeoutError
  | ExecutionFailedError | UnsupportedOperationError

definition error_kind :: "diagnostic \<Rightarrow> error_kind option" where
  "error_kind d =
     (if severity d \<noteq> SeverityError then None
      else if summary d = ''Path Resolution Error'' then Some PathResolutionError
      else if summary d = ''Directory Not Found'' then Some DirectoryNotFoundError
      else if summary d = ''KCL Execution Failed'' then Some ExecutionFailedError
      else if summary d = ''Update Not Supported'' then Some UnsupportedOperationError
      else None)"

section \<open>Notions of the specification\<close>

subsection \<open>What the external tool did\<close>

fun is_CallCommand :: "call \<Rightarrow> bool" where
  "is_CallCommand (CallCommand c a d e t) = True"
| "is_CallCommand _ = False"

text \<open>The external tool was invoked and the invocation returned without an error.\<close>

fun call_completed :: "world \<Rightarrow> call \<Rightarrow> bool" where
  "call_completed w (CallCommand c a d e t) =
     (snd (CombinedOutput (exec_Command w c a d e) t) = None)"
| "call_completed w _ = False"

definition tool_completed :: "world \<Rightarrow> call list \<Rightarrow> bool" where
  "tool_completed w calls = list_ex (call_completed w) calls"

text \<open>
  \<open>exits_within d p\<close> is the exit status of the process when it exits before \<open>d\<close>
  nanoseconds have passed, \<open>written_within d p\<close> is what it has written by then, and
  \<open>writes p\<close> is all it ever writes: its standard output and standard error in the order
  of production.
\<close>

fun exits_within :: "int \<Rightarrow> process \<Rightarrow> nat option" where
  "exits_within d (Exit n) = Some n"
| "exits_within d Hang = None"
| "exits_within d (Sleep n p) = (if int n < d then exits_within (d - int n) p else None)"
| "exits_within d (Write s bytes p) = exits_within d p"

fun written_within :: "int \<Rightarrow> process \<Rightarrow> string" where
  "written_within d (Exit n) = []"
| "written_within d Hang = []"
| "written_within d (Sleep n p) = (if int n < d then written_within (d - int n) p else [])"
| "written_within d (Write s bytes p) = bytes @ written_within d p"

fun writes :: "process \<Rightarrow> string" where
  "writes (Exit n) = []"
| "writes Hang = []"
| "writes (Sleep n p) = writes p"
| "writes (Write s bytes p) = bytes @ writes p"

subsection \<open>A path at which nothing exists\<close>

text \<open>
  Nothing exists at a path when its last component is missing or when a component before
  the last is not a directory.
\<close>

fun absent :: "stat_result \<Rightarrow> bool" where
  "absent StatNotExist = True"
| "absent StatNotDir = True"
| "absent _ = False"

subsection \<open>Decoded attributes\<close>

fun list_diags :: "tf_list \<Rightarrow> Diagnostics" where
  "list_diags ListNull = []"
| "list_diags (ListValue diags xs) = diags"

fun list_elements :: "tf_list \<Rightarrow> string list" where
  "list_elements ListNull = []"
| "list_elements (ListValue diags xs) = xs"

fun map_diags :: "tf_map \<Rightarrow> Diagnostics" where
  "map_diags MapNull = []"
| "map_diags (MapValue diags kvs) = diags"

fun map_elements :: "tf_map \<Rightarrow> (string \<times> string) list" where
  "map_elements MapNull = []"
| "map_elements (MapValue diags kvs) = kvs"

subsection \<open>An environment vector read with the last occurrence winning\<close>

text \<open>
  An entry of the vector names the variable before its first \<open>=\<close> and gives it the value
  after it; an entry without \<open>=\<close> names none. Reading the vector from the front, a later
  entry replaces an earlier one of the same variable.
\<close>

definition env_key :: "string \<Rightarrow> string" where
  "env_key e = takeWhile (\<lambda>c. c \<noteq> CHR ''='') e"

definition env_value :: "string \<Rightarrow> string" where
  "env_value e = drop 1 (dropWhile (\<lambda>c. c \<noteq> CHR ''='') e)"

definition env_update :: "string \<Rightarrow> (string \<rightharpoonup> string) \<Rightarrow> (string \<rightharpoonup> string)" where
  "env_update e m = (if CHR ''='' \<in> set e then m(env_key e \<mapsto> env_value e) else m)"

definition effective_env :: "string list \<Rightarrow> string \<Rightarrow> string option" where
  "effective_env vars = fold env_update vars Map.empty"

subsection \<open>Inputs that the joined string keeps apart\<close>

definition plain_word :: "string \<Rightarrow> bool" where
  "plain_word s = (s \<noteq> [] \<and> CHR '' '' \<notin> set s)"

definition no_bar :: "string \<Rightarrow> bool" where
  "no_bar s = (CHR ''|'' \<notin> set s)"

text \<open>
  Neither the working directory nor the command path nor an argument holds the separator
  \<open>|\<close>, and no argument and no environment entry is empty or holds a space.
\<close>

definition separable :: "string \<Rightarrow> string \<Rightarrow> string list \<Rightarrow> string list \<Rightarrow> bool" where
  "separable absPath kclCommand args envVars =
     (no_bar absPath \<and> no_bar kclCommand \<and> list_all no_bar args
      \<and> list_all plain_word args \<and> list_all plain_word envVars)"

subsection \<open>A concrete run\<close>

text \<open>
  A working directory \<open>/work\<close> that holds the directory \<open>kcl-configs\<close> and the file
  \<open>main.k\<close> (so that \<open>main.k/sub\<close> is absent, below a file), the ambient environment
  \<open>A=1\<close>, and a tool \<open>kcl\<close> on the search path that
  prints \<open>hello\<close> to its standard output and, a microsecond later, \<open>world\<close> to its
  standard error, each with a line feed, and exits with status 0.
\<close>

definition demo_tool :: process where
  "demo_tool =
     Write Stdout (''hello'' @ [CHR 0x0A])
       (Sleep 1000 (Write Stderr (''world'' @ [CHR 0x0A]) (Exit 0)))"

definition demo_world :: world where
  "demo_world =
     \<lparr>filepath_Abs = (\<lambda>s. Inr (''/work/'' @ s)),
      os_Stat = (\<lambda>p. if p = ''/work/kcl-configs'' then StatDirectory
                      else if p = ''/work/main.k'' then StatFile
                      else if p = ''/work/main.k/sub'' then StatNotDir else StatNotExist),
      os_Environ = [''A=1''],
      sha256_Sum256 = (\<lambda>m. replicate 32 0),
      exec_Command = (\<lambda>c a d e.
        if c \<noteq> ''kcl'' then NotFound ''executable file not found in $PATH''
        else if d \<noteq> ''/work/kcl-configs'' then CannotStart ''not a directory''
        else Started demo_tool)\<rparr>"

definition demo_plan :: KclExecResourceModel where
  "demo_plan =
     \<lparr>ID = StringUnknown, SourceDir = StringValue ''kcl-configs'', Output = StringUnknown,
      Args = ListValue [] [''-o'', ''out.json''], Triggers = MapNull, Timeout = Int64Null,
      Environment = MapValue [] [(''A'', ''2''), (''B'', ''3'')]\<rparr>"

definition demo_request :: "KclExecResourceModel \<Rightarrow> CreateRequest" where
  "demo_request plan = \<lparr>PlanGet_diags = [], PlanGet_plan = plan\<rparr>"

definition demo_resource :: KclExecResource where
  "demo_resource = \<lparr>provider = None\<rparr>"

text \<open>
  Two other tools in the same surroundings: one writes \<open>partial\<close> and never exits, one
  writes \<open>bad\<close> to its standard error and exits with status 1.
\<close>

definition hang_world :: world where
  "hang_world = demo_world\<lparr>exec_Command := (\<lambda>c a d e. Started (Write Stdout ''partial'' Hang))\<rparr>"

definition fail_world :: world where
  "fail_world = demo_world\<lparr>exec_Command := (\<lambda>c a d e. Started (Write Stderr ''bad'' (Exit 1)))\<rparr>"

section \<open>Auxiliary facts\<close>

subsection \<open>Diagnostics\<close>

lemma HasError_append: "HasError (xs @ ys) \<longleftrightarrow> HasError xs \<or> HasError ys"
  by (simp add: HasError_def list_ex_iff) blast

lemma HasError_ErrorDiagnostic: "HasError (ds @ [ErrorDiagnostic s d])"
  by (simp add: HasError_def ErrorDiagnostic_def)

subsection \<open>The stages of Create\<close>

lemma Create_exec_calls:
  "snd (Create_exec w plan absPath cmd args env resp calls) =
     calls @ [CallCommand cmd args absPath env (timeout_of plan)]"
  by (simp add: Create_exec_def Let_def split: prod.splits option.splits)

lemma Create_exec_failure:
  "CombinedOutput (exec_Command w cmd args absPath env) (timeout_of plan) = (out, Some err) \<Longrightarrow>
   fst (Create_exec w plan absPath cmd args env resp calls) =
     AddError resp ''KCL Execution Failed'' (ExecutionFailed_detail cmd args err out)"
  by (simp add: Create_exec_def Let_def)

lemma Create_exec_success:
  "CombinedOutput (exec_Command w cmd args absPath env) (timeout_of plan) = (out, None) \<Longrightarrow>
   fst (Create_exec w plan absPath cmd args env resp calls) =
     State_Set resp (plan\<lparr>ID := StringValue (generate_id w absPath cmd args env),
                            Output := StringValue (TrimSpace out)\<rparr>)"
  by (simp add: Create_exec_def Let_def)

text \<open>A command call in the log means that every earlier stage passed.\<close>

lemma Create_reaches_exec:
  assumes "CallCommand c a d e t \<in> set (snd (Create r w req resp))"
  shows "\<exists>resp1 calls1.
           Create r w req resp = Create_exec w (PlanGet_plan req) d c a e resp1 calls1
         \<and> \<not> HasError (Diagnostics resp1) \<and> State resp1 = State resp
         \<and> \<not> list_ex is_CallCommand calls1
         \<and> t = timeout_of (PlanGet_plan req) \<and> c = kclCommand_of r
         \<and> a = list_elements (Args (PlanGet_plan req))
         \<and> e = os_Environ w @ map env_entry (map_elements (Environment (PlanGet_plan req)))
         \<and> filepath_Abs w (ValueString (SourceDir (PlanGet_plan req))) = Inr d
         \<and> \<not> IsNotExist (os_Stat w d)"
  using assms
  apply (auto simp add: Create_def Create_args_def Create_environment_def Create_exec_calls
        Append_def AddError_def Let_def HasError_append
      split: if_splits sum.splits tf_list.splits tf_map.splits)
     apply (rule exI, rule exI, rule conjI, rule refl, simp add: HasError_append)+
  done

lemma Create_without_exec:
  assumes "\<not> list_ex is_CallCommand (snd (Create r w req resp))"
  shows "HasError (Diagnostics (fst (Create r w req resp)))
         \<and> State (fst (Create r w req resp)) = State resp"
  using assms
  by (auto simp add: Create_def Create_args_def Create_environment_def Create_exec_calls
        Append_def AddError_def Let_def HasError_append HasError_def ErrorDiagnostic_def
      split: if_splits sum.splits tf_list.splits tf_map.splits)

text \<open>When every earlier stage passes, the tool is called with the resolved inputs.\<close>

lemma Create_passes_to_exec:
  assumes "\<not> HasError (Diagnostics resp @ PlanGet_diags req
             @ list_diags (Args (PlanGet_plan req)) @ map_diags (Environment (PlanGet_plan req)))"
    and "filepath_Abs w (ValueString (SourceDir (PlanGet_plan req))) = Inr absPath"
    and "\<not> IsNotExist (os_Stat w absPath)"
  shows "\<exists>resp1 calls1.
           Create r w req resp =
             Create_exec w (PlanGet_plan req) absPath (kclCommand_of r)
               (list_elements (Args (PlanGet_plan req)))
               (os_Environ w @ map env_entry (map_elements (Environment (PlanGet_plan req))))
               resp1 calls1
         \<and> \<not> HasError (Diagnostics resp1) \<and> State resp1 = State resp"
  using assms
  by (auto simp add: Create_def Create_args_def Create_environment_def
        Append_def Let_def HasError_append
      split: tf_list.splits tf_map.splits)

subsection \<open>The process under a deadline\<close>

lemma run_killed:
  "exits_within d p = None \<Longrightarrow> run d p = (written_within d p, Some SignalKilled)"
  by (induction d p rule: run.induct) (auto split: if_splits)


lemma written_within_prefix: "prefix (written_within d p) (writes p)"
  by (induction d p rule: written_within.induct) auto

lemma CombinedOutput_expired:
  "sint t \<le> 0 \<Longrightarrow> \<exists>out err. CombinedOutput c t = (out, Some err)"
  by (cases c) (simp_all add: CombinedOutput_def)

subsection \<open>Digest and hexadecimal form\<close>





subsection \<open>Splitting the joined string\<close>

lemma split_at_sep:
  assumes "c \<notin> set a" "c \<notin> set a'" "a @ c # r = a' @ c # r'"
  shows "a = a' \<and> r = r'"
  using assms
proof (induction a arbitrary: a')
  case Nil
  then show ?case by (cases a') auto
next
  case (Cons x xs)
  then show ?case by (cases a') auto
qed

lemma Join_space_Nil: "list_all plain_word xs \<Longrightarrow> Join xs '' '' = [] \<longleftrightarrow> xs = []"
  by (induction xs "'' ''" rule: Join.induct) (auto simp: plain_word_def)

lemma Join_Cons: "Join (x # xs) sep = (if xs = [] then x else x @ sep @ Join xs sep)"
  by (cases xs) auto

lemma Join_space_inj:
  assumes "list_all plain_word xs" "list_all plain_word ys" "Join xs '' '' = Join ys '' ''"
  shows "xs = ys"
  using assms
proof (induction xs arbitrary: ys)
  case Nil
  then show ?case using Join_space_Nil [of ys] by simp
next
  case (Cons x xs)
  show ?case
  proof (cases ys)
    case Nil
    with Cons.prems show ?thesis using Join_space_Nil [of "x # xs"] by simp
  next
    case ys: (Cons y ys')
    have px: "CHR '' '' \<notin> set x" and py: "CHR '' '' \<notin> set y"
      using Cons.prems(1,2) ys by (simp_all add: plain_word_def)
    have pxs: "list_all plain_word xs" and pys: "list_all plain_word ys'"
      using Cons.prems(1,2) ys by simp_all
    have eq: "Join (x # xs) '' '' = Join (y # ys') '' ''"
      using Cons.prems(3) ys by simp
    show ?thesis
    proof (cases "xs = []")
      case x_last: True
      show ?thesis
      proof (cases "ys' = []")
        case True
        with x_last eq ys show ?thesis by simp
      next
        case False
        with x_last eq have "x = y @ CHR '' '' # Join ys' '' ''" by (simp add: Join_Cons)
        then have "CHR '' '' \<in> set x" by simp
        with px show ?thesis by simp
      qed
    next
      case x_more: False
      show ?thesis
      proof (cases "ys' = []")
        case True
        with x_more eq have "y = x @ CHR '' '' # Join xs '' ''" by (simp add: Join_Cons)
        then have "CHR '' '' \<in> set y" by simp
        with py show ?thesis by simp
      next
        case False
        with x_more eq have "x @ CHR '' '' # Join xs '' '' = y @ CHR '' '' # Join ys' '' ''"
          by (simp add: Join_Cons)
        from split_at_sep [OF px py this] have "x = y" and "Join xs '' '' = Join ys' '' ''"
          by simp_all
        with Cons.IH [OF pxs pys] ys show ?thesis by simp
      qed
    qed
  qed
qed

lemma Join_no_bar: "list_all no_bar xs \<Longrightarrow> no_bar sep \<Longrightarrow> no_bar (Join xs sep)"
  by (induction xs sep rule: Join.induct) (auto simp: no_bar_def)

lemma idInput_inj:
  assumes "separable d c a e" "separable d' c' a' e'"
    and "idInput d c a e = idInput d' c' a' e'"
  shows "d = d' \<and> c = c' \<and> a = a' \<and> e = e'"
proof -
  let ?A = "CHR ''['' # Join a '' '' @ '']''" and ?A' = "CHR ''['' # Join a' '' '' @ '']''"
  let ?E = "Sprint_strings e" and ?E' = "Sprint_strings e'"
  have bars: "CHR ''|'' \<notin> set d" "CHR ''|'' \<notin> set d'" "CHR ''|'' \<notin> set c" "CHR ''|'' \<notin> set c'"
    using assms(1,2) by (simp_all add: separable_def no_bar_def)
  have words: "list_all plain_word a" "list_all plain_word a'"
    "list_all plain_word e" "list_all plain_word e'"
    using assms(1,2) by (simp_all add: separable_def)
  have space: "no_bar '' ''"
    by (simp add: no_bar_def)
  have "list_all no_bar a" "list_all no_bar a'"
    using assms(1,2) by (simp_all add: separable_def)
  then have "no_bar (Join a '' '')" "no_bar (Join a' '' '')"
    using space by (simp_all only: Join_no_bar)
  then have barsA: "CHR ''|'' \<notin> set ?A" "CHR ''|'' \<notin> set ?A'"
    by (simp_all add: no_bar_def)
  from assms(3) have 1: "d @ CHR ''|'' # (c @ CHR ''|'' # (?A @ CHR ''|'' # ?E))
      = d' @ CHR ''|'' # (c' @ CHR ''|'' # (?A' @ CHR ''|'' # ?E'))"
    by (simp add: idInput_def Sprint_strings_def)
  from split_at_sep [OF bars(1,2) 1] have dd: "d = d'"
    and 2: "c @ CHR ''|'' # (?A @ CHR ''|'' # ?E) = c' @ CHR ''|'' # (?A' @ CHR ''|'' # ?E')"
    by simp_all
  from split_at_sep [OF bars(3,4) 2] have cc: "c = c'"
    and 3: "?A @ CHR ''|'' # ?E = ?A' @ CHR ''|'' # ?E'"
    by simp_all
  from split_at_sep [OF barsA 3] have "?A = ?A'" and "?E = ?E'"
    by simp_all
  then have "Join a '' '' = Join a' '' ''" "Join e '' '' = Join e' '' ''"
    by (simp_all add: Sprint_strings_def)
  then have "a = a'" "e = e'"
    using Join_space_inj words by blast+
  with dd cc show ?thesis by simp
qed

subsection \<open>Environment entries\<close>

lemma env_update_entry:
  assumes "CHR ''='' \<notin> set k"
  shows "env_update (env_entry (k, v)) m = m(k \<mapsto> v)"
proof -
  have "env_key (env_entry (k, v)) = k"
    using assms by (simp add: env_key_def env_entry_def takeWhile_append)
  moreover have "env_value (env_entry (k, v)) = v"
    using assms by (simp add: env_value_def env_entry_def dropWhile_append)
  moreover have "CHR ''='' \<in> set (env_entry (k, v))"
    by (simp add: env_entry_def)
  ultimately show ?thesis by (simp add: env_update_def)
qed

lemma fold_env_entries:
  assumes "distinct (map fst kvs)" "list_all (\<lambda>kv. CHR ''='' \<notin> set (fst kv)) kvs"
  shows "fold env_update (map env_entry kvs) m k =
         (case map_of kvs k of Some v \<Rightarrow> Some v | None \<Rightarrow> m k)"
  using assms
proof (induction kvs arbitrary: m)
  case Nil
  then show ?case by simp
next
  case (Cons kv kvs)
  obtain k' v' where kv: "kv = (k', v')" by (cases kv)
  have nk: "CHR ''='' \<notin> set k'" using Cons.prems(2) kv by simp
  have "k' \<notin> fst ` set kvs" using Cons.prems(1) kv by simp
  then have none: "map_of kvs k' = None" by (simp add: map_of_eq_None_iff)
  have "fold env_update (map env_entry (kv # kvs)) m k
        = fold env_update (map env_entry kvs) (m(k' \<mapsto> v')) k"
    using nk kv by (simp add: env_update_entry)
  also have "\<dots> = (case map_of kvs k of Some v \<Rightarrow> Some v | None \<Rightarrow> (m(k' \<mapsto> v')) k)"
    by (rule Cons.IH) (use Cons.prems in simp_all)
  also have "\<dots> = (case map_of (kv # kvs) k of Some v \<Rightarrow> Some v | None \<Rightarrow> m k)"
    using none kv by (cases "k = k'") (simp_all split: option.splits)
  finally show ?case .
qed

subsection \<open>Seconds as nanoseconds in 64 bits\<close>

lemma sint_seconds:
  assumes "- 9223372036 \<le> sint (v :: 64 word)" "sint v \<le> 9223372036"
  shows "sint (v * Second) = sint v * 1000000000"
proof -
  have "sint (v * 1000000000) = signed_take_bit 63 (sint v * sint (1000000000 :: 64 word))"
    by (simp add: sint_word_ariths)
  also have "sint (1000000000 :: 64 word) = 1000000000" by simp
  also have "signed_take_bit 63 (sint v * 1000000000) = sint v * 1000000000"
    using assms by (intro signed_take_bit_int_eq_self) auto
  finally show ?thesis by (simp add: Second_def)
qed

subsection \<open>Evaluating the concrete run\<close>

lemmas demo_defs = demo_world_def demo_plan_def demo_request_def demo_resource_def demo_tool_def
  new_Response_def

lemmas Create_defs = Create_def Create_args_def Create_environment_def Create_exec_def
  CombinedOutput_def timeout_of_def Second_def kclCommand_of_def env_entry_def
  Append_def AddError_def State_Set_def HasError_def Let_def

lemma trim_hello_world:
  "TrimSpace (''hello'' @ [CHR 0x0A] @ ''world'' @ [CHR 0x0A]) = ''hello'' @ [CHR 0x0A] @ ''world''"
  by code_simp

lemma demo_Create:
  "Create demo_resource demo_world (demo_request demo_plan) new_Response =
     (\<lparr>Diagnostics = [],
       State = Some (demo_plan
         \<lparr>ID := StringValue (generate_id demo_world ''/work/kcl-configs'' ''kcl'' [''-o'', ''out.json'']
                  [''A=1'', ''A=2'', ''B=3'']),
          Output := StringValue (''hello'' @ [CHR 0x0A] @ ''world'')\<rparr>)\<rparr>,
      [CallAbs ''kcl-configs'', CallStat ''/work/kcl-configs'', CallEnviron,
       CallCommand ''kcl'' [''-o'', ''out.json''] ''/work/kcl-configs''
         [''A=1'', ''A=2'', ''B=3''] 300000000000])"
  using trim_hello_world by (simp add: Create_defs demo_defs)

lemmas env_defs = effective_env_def env_update_def env_entry_def env_key_def env_value_def

section \<open>Properties\<close>

text \<open>
  C1. Create is atomic with respect to the state. Whatever response it starts from: when
  the external tool was invoked and its invocation returned without error, the response
  has no error and holds a state with an id and an output; when it was not (the plan
  could not be decoded, the path not resolved, the directory was absent, the arguments or
  the environment could not be decoded, or the execution failed), the response has an
  error and its state is the one it started with. From the empty response of the
  framework, a state is there if and only if the tool completed without error.
\<close>

theorem Create_atomic:
  "(tool_completed w (snd (Create r w req resp)) \<longrightarrow>
      \<not> HasError (Diagnostics (fst (Create r w req resp)))
      \<and> (\<exists>st i out. State (fst (Create r w req resp)) = Some st
            \<and> ID st = StringValue i \<and> Output st = StringValue out))
   \<and> (\<not> tool_completed w (snd (Create r w req resp)) \<longrightarrow>
      HasError (Diagnostics (fst (Create r w req resp)))
      \<and> State (fst (Create r w req resp)) = State resp)
   \<and> (State (fst (Create r w req new_Response)) \<noteq> None
        \<longleftrightarrow> tool_completed w (snd (Create r w req new_Response)))"
proof -
  have main: "(tool_completed w (snd (Create r w req resp)) \<longrightarrow>
      \<not> HasError (Diagnostics (fst (Create r w req resp)))
      \<and> (\<exists>st i out. State (fst (Create r w req resp)) = Some st
            \<and> ID st = StringValue i \<and> Output st = StringValue out))
   \<and> (\<not> tool_completed w (snd (Create r w req resp)) \<longrightarrow>
      HasError (Diagnostics (fst (Create r w req resp)))
      \<and> State (fst (Create r w req resp)) = State resp)" for resp
  proof (cases "list_ex is_CallCommand (snd (Create r w req resp))")
    case False
    then have "\<not> tool_completed w (snd (Create r w req resp))"
      unfolding tool_completed_def list_ex_iff
      by (metis call_completed.elims(2) is_CallCommand.simps(1))
    with Create_without_exec [OF False] show ?thesis by simp
  next
    case True
    then obtain x where x: "x \<in> set (snd (Create r w req resp))" "is_CallCommand x"
      by (auto simp: list_ex_iff)
    obtain c a d e t where "x = CallCommand c a d e t"
      using x(2) by (cases x) auto
    with x Create_reaches_exec [of c a d e t r w req resp]
    obtain resp1 calls1 where
      eq: "Create r w req resp = Create_exec w (PlanGet_plan req) d c a e resp1 calls1"
      and ok: "\<not> HasError (Diagnostics resp1)" and st: "State resp1 = State resp"
      and none: "\<not> list_ex is_CallCommand calls1" and t: "t = timeout_of (PlanGet_plan req)"
      by blast
    have "\<not> list_ex (call_completed w) calls1"
      using none unfolding list_ex_iff by (metis call_completed.elims(2) is_CallCommand.simps(1))
    then have tc: "tool_completed w (snd (Create r w req resp)) \<longleftrightarrow>
        snd (CombinedOutput (exec_Command w c a d e) t) = None"
      by (simp add: tool_completed_def eq Create_exec_calls t)
    obtain out err where co: "CombinedOutput (exec_Command w c a d e) t = (out, err)"
      by (cases "CombinedOutput (exec_Command w c a d e) t")
    show ?thesis
    proof (cases err)
      case None
      with co t Create_exec_success [of w c a d e "PlanGet_plan req" out resp1 calls1]
      show ?thesis using tc ok by (simp add: eq State_Set_def)
    next
      case (Some x)
      with co t Create_exec_failure [of w c a d e "PlanGet_plan req" out x resp1 calls1]
      show ?thesis using tc st
        by (simp add: eq AddError_def HasError_ErrorDiagnostic)
    qed
  qed
  from main [of new_Response] main [of resp] show ?thesis
    by (auto simp add: new_Response_def)
qed

theorem Create_atomic_witness:
  "tool_completed demo_world
     (snd (Create demo_resource demo_world (demo_request demo_plan) new_Response))
   \<and> \<not> HasError (Diagnostics
         (fst (Create demo_resource demo_world (demo_request demo_plan) new_Response)))
   \<and> State (fst (Create demo_resource demo_world (demo_request demo_plan) new_Response)) \<noteq> None
   \<and> \<not> tool_completed demo_world
         (snd (Create demo_resource demo_world
            (demo_request (demo_plan\<lparr>SourceDir := StringValue ''missing''\<rparr>)) new_Response))
   \<and> State (fst (Create demo_resource demo_world
         (demo_request (demo_plan\<lparr>SourceDir := StringValue ''missing''\<rparr>)) new_Response)) = None"
proof -
  have a: "tool_completed demo_world
     (snd (Create demo_resource demo_world (demo_request demo_plan) new_Response))"
    by (simp add: demo_Create tool_completed_def)
      (simp add: demo_defs CombinedOutput_def)
  have b: "\<not> tool_completed demo_world
         (snd (Create demo_resource demo_world
            (demo_request (demo_plan\<lparr>SourceDir := StringValue ''missing''\<rparr>)) new_Response))"
    by (simp add: Create_defs demo_defs tool_completed_def)
  from a b
    Create_atomic [of demo_world demo_resource "demo_request demo_plan" new_Response]
    Create_atomic [of demo_world demo_resource
      "demo_request (demo_plan\<lparr>SourceDir := StringValue ''missing''\<rparr>)" new_Response]
  show ?thesis by (simp add: new_Response_def)
qed


text \<open>
  C2, as stated, fails: the identifier is not injective. The verb \<^verbatim>\<open>%v\<close> separates the
  elements of a slice by a space, so the one argument \<open>a b\<close> and the two arguments \<open>a\<close>,
  \<open>b\<close> are joined to the same string and get the same identifier, whatever the digest.
\<close>

theorem generate_id_not_injective:
  "[''a b''] \<noteq> [''a'', ''b'']
   \<and> generate_id demo_world ''/work'' ''kcl'' [''a b''] [] = generate_id demo_world ''/work'' ''kcl'' [''a'', ''b''] []"
  by (simp add: generate_id_def idInput_def Sprint_strings_def)

text \<open>
  C2, amended. The identifier is the hexadecimal form of the first 16 bytes of the digest
  of the joined string, so invocations joined to the same string (identical ones among
  them) get the same identifier. Two invocations that differ in the working directory,
  the command path, the arguments or the environment are joined to different strings
  when they are separable: no \<open>|\<close> in directory, command or arguments, and no argument
  or environment entry that is empty or holds a space.
\<close>

theorem generate_id_separates:
  "generate_id w d c a e = EncodeToString (take 16 (sha256_Sum256 w (idInput d c a e)))
   \<and> (idInput d c a e = idInput d' c' a' e' \<longrightarrow> generate_id w d c a e = generate_id w d' c' a' e')
   \<and> (separable d c a e \<and> separable d' c' a' e' \<and> (d, c, a, e) \<noteq> (d', c', a', e')
        \<longrightarrow> idInput d c a e \<noteq> idInput d' c' a' e')"
  using idInput_inj [of d c a e d' c' a' e'] by (auto simp add: generate_id_def)

theorem generate_id_separates_witness:
  "separable ''/work'' ''kcl'' [''-o'', ''a.json''] [''A=1'']
   \<and> separable ''/work'' ''kcl'' [''-o'', ''b.json''] [''A=1'']
   \<and> idInput ''/work'' ''kcl'' [''-o'', ''a.json''] [''A=1'']
       \<noteq> idInput ''/work'' ''kcl'' [''-o'', ''b.json''] [''A=1'']
   \<and> idInput ''/work'' ''kcl'' [''-o'', ''a.json''] [''A=1''] = ''/work|kcl|[-o a.json]|[A=1]''"
proof -
  have a: "separable ''/work'' ''kcl'' [''-o'', ''a.json''] [''A=1'']"
    and b: "separable ''/work'' ''kcl'' [''-o'', ''b.json''] [''A=1'']"
    by (simp_all add: separable_def no_bar_def plain_word_def)
  have c: "(''/work'', ''kcl'', [''-o'', ''a.json''], [''A=1''])
         \<noteq> (''/work'', ''kcl'', [''-o'', ''b.json''], [''A=1''])"
    by simp
  from a b c generate_id_separates [of w "''/work''" "''kcl''" "[''-o'', ''a.json'']"
      "[''A=1'']" "''/work''" "''kcl''" "[''-o'', ''b.json'']" "[''A=1'']"]
  have "idInput ''/work'' ''kcl'' [''-o'', ''a.json''] [''A=1'']
       \<noteq> idInput ''/work'' ''kcl'' [''-o'', ''b.json''] [''A=1'']"
    by blast
  with a b show ?thesis by (simp add: idInput_def Sprint_strings_def)
qed

text \<open>
  C3, as stated, fails: there is no error of its own for a timeout. A tool that never exits
  and is killed at the deadline, and a tool that exits with status 1, both end in one
  diagnostic of the kind ExecutionFailedError with the same summary.
\<close>

theorem Create_timeout_not_distinct:
  "map error_kind (Diagnostics (fst (Create demo_resource hang_world (demo_request demo_plan) new_Response)))
     = [Some ExecutionFailedError]
   \<and> map error_kind (Diagnostics (fst (Create demo_resource fail_world (demo_request demo_plan) new_Response)))
     = [Some ExecutionFailedError]
   \<and> map summary (Diagnostics (fst (Create demo_resource hang_world (demo_request demo_plan) new_Response)))
     = map summary (Diagnostics (fst (Create demo_resource fail_world (demo_request demo_plan) new_Response)))"
  by (simp add: Create_defs demo_defs hang_world_def fail_world_def error_kind_def ErrorDiagnostic_def)

text \<open>
  C3, amended. When the tool was started under a timeout that is positive and has not
  exited when it elapses, Create fails with a diagnostic of the kind ExecutionFailedError,
  the one every failed execution gets: its detail names the command, the arguments, the
  error \<open>signal: killed\<close> and exactly what the tool wrote before the deadline (a prefix
  of all it would write). The earlier diagnostics hold no error, and the state of the
  response is unchanged.
\<close>

theorem Create_timeout_ExecutionFailed:
  assumes "CallCommand c a d e t \<in> set (snd (Create r w req resp))"
    and "exec_Command w c a d e = Started p"
    and "0 < sint t"
    and "exits_within (sint t) p = None"
  shows "(\<exists>ds. Diagnostics (fst (Create r w req resp)) =
            ds @ [ErrorDiagnostic ''KCL Execution Failed''
                    (ExecutionFailed_detail c a SignalKilled (written_within (sint t) p))]
          \<and> \<not> HasError ds)
       \<and> error_kind (last (Diagnostics (fst (Create r w req resp)))) = Some ExecutionFailedError
       \<and> State (fst (Create r w req resp)) = State resp
       \<and> prefix (written_within (sint t) p) (writes p)"
proof -
  from Create_reaches_exec [OF assms(1)] obtain resp1 calls1 where
    eq: "Create r w req resp = Create_exec w (PlanGet_plan req) d c a e resp1 calls1"
    and ok: "\<not> HasError (Diagnostics resp1)" and st: "State resp1 = State resp"
    and t: "t = timeout_of (PlanGet_plan req)"
    by blast
  have "CombinedOutput (exec_Command w c a d e) (timeout_of (PlanGet_plan req))
        = (written_within (sint t) p, Some SignalKilled)"
    using assms(2,3) run_killed [OF assms(4)] t by (simp add: CombinedOutput_def)
  from Create_exec_failure [OF this, of resp1 calls1]
  have "fst (Create r w req resp) = AddError resp1 ''KCL Execution Failed''
          (ExecutionFailed_detail c a SignalKilled (written_within (sint t) p))"
    by (simp add: eq)
  with ok st written_within_prefix [of "sint t" p] show ?thesis
    by (simp add: AddError_def error_kind_def ErrorDiagnostic_def)
qed

theorem Create_timeout_ExecutionFailed_witness:
  "(\<exists>ds. Diagnostics (fst (Create demo_resource hang_world (demo_request demo_plan) new_Response)) =
       ds @ [ErrorDiagnostic ''KCL Execution Failed''
        (ExecutionFailed_detail ''kcl'' [''-o'', ''out.json''] SignalKilled ''partial'')]
     \<and> \<not> HasError ds)
   \<and> error_kind (last (Diagnostics
         (fst (Create demo_resource hang_world (demo_request demo_plan) new_Response))))
       = Some ExecutionFailedError
   \<and> State (fst (Create demo_resource hang_world (demo_request demo_plan) new_Response)) = None"
proof -
  let ?t = "300000000000 :: 64 word"
  let ?p = "Write Stdout ''partial'' Hang"
  have calls: "CallCommand ''kcl'' [''-o'', ''out.json''] ''/work/kcl-configs''
      [''A=1'', ''A=2'', ''B=3''] ?t
      \<in> set (snd (Create demo_resource hang_world (demo_request demo_plan) new_Response))"
    by (simp add: Create_defs demo_defs hang_world_def)
  have cmd: "exec_Command hang_world ''kcl'' [''-o'', ''out.json''] ''/work/kcl-configs''
      [''A=1'', ''A=2'', ''B=3''] = Started ?p"
    by (simp add: hang_world_def demo_defs)
  have pos: "0 < sint ?t" by simp
  have hang: "exits_within (sint ?t) ?p = None" by simp
  from Create_timeout_ExecutionFailed [OF calls cmd pos hang]
  show ?thesis by (simp add: new_Response_def)
qed

text \<open>
  C4, as stated, fails for a supplied key that holds \<open>=\<close>. With the ambient \<open>A=1\<close> and
  the supplied key \<open>A=B\<close> of value \<open>C\<close>, the appended entry \<open>A=B=C\<close> sets the variable
  \<open>A\<close> to \<open>B=C\<close>: the ambient \<open>A\<close>, which is not a key of the mapping, does not pass
  through, and no variable \<open>A=B\<close> is set.
\<close>

theorem effective_env_key_with_equals:
  "effective_env ([''A=1''] @ map env_entry [(''A=B'', ''C'')]) ''A'' = Some ''B=C''
   \<and> effective_env [''A=1''] ''A'' = Some ''1''
   \<and> map_of [(''A=B'', ''C'')] ''A'' = None
   \<and> effective_env ([''A=1''] @ map env_entry [(''A=B'', ''C'')]) ''A=B'' = None"
  by (simp add: env_defs)

text \<open>
  C4, amended. The environment vector handed to the tool is the ambient environment
  followed by one entry \<open>key=value\<close> for each supplied key (none when the attribute is
  null). When no supplied key holds \<open>=\<close> (the keys of a Go map are distinct), reading
  the vector with the last occurrence winning gives a supplied key its supplied value and
  every other variable its ambient value.
\<close>

theorem Create_environment_vector:
  "(CallCommand c a d e t \<in> set (snd (Create r w req resp)) \<longrightarrow>
      e = os_Environ w @ map env_entry (map_elements (Environment (PlanGet_plan req))))
   \<and> (distinct (map fst envMap) \<and> list_all (\<lambda>kv. CHR ''='' \<notin> set (fst kv)) envMap \<longrightarrow>
      effective_env (ambient @ map env_entry envMap) k =
        (case map_of envMap k of Some v \<Rightarrow> Some v | None \<Rightarrow> effective_env ambient k))"
proof (intro conjI impI)
  assume "CallCommand c a d e t \<in> set (snd (Create r w req resp))"
  from Create_reaches_exec [OF this]
  show "e = os_Environ w @ map env_entry (map_elements (Environment (PlanGet_plan req)))"
    by blast
next
  assume "distinct (map fst envMap) \<and> list_all (\<lambda>kv. CHR ''='' \<notin> set (fst kv)) envMap"
  then show "effective_env (ambient @ map env_entry envMap) k =
        (case map_of envMap k of Some v \<Rightarrow> Some v | None \<Rightarrow> effective_env ambient k)"
    unfolding effective_env_def by (simp add: fold_env_entries)
qed

theorem Create_environment_vector_witness:
  "effective_env ([''A=1''] @ map env_entry [(''A'', ''2''), (''B'', ''3'')]) ''A'' = Some ''2''
   \<and> effective_env ([''A=1''] @ map env_entry [(''A'', ''2''), (''B'', ''3'')]) ''B'' = Some ''3''
   \<and> CallCommand ''kcl'' [''-o'', ''out.json''] ''/work/kcl-configs''
        ([''A=1''] @ map env_entry [(''A'', ''2''), (''B'', ''3'')]) 300000000000
      \<in> set (snd (Create demo_resource demo_world (demo_request demo_plan) new_Response))"
proof -
  have h: "distinct (map fst [(''A'', ''2''), (''B'', ''3'')])
     \<and> list_all (\<lambda>kv. CHR ''='' \<notin> set (fst kv)) [(''A'', ''2''), (''B'', ''3'')]"
    by simp
  have c: "CallCommand ''kcl'' [''-o'', ''out.json''] ''/work/kcl-configs''
        ([''A=1''] @ map env_entry [(''A'', ''2''), (''B'', ''3'')]) 300000000000
      \<in> set (snd (Create demo_resource demo_world (demo_request demo_plan) new_Response))"
    by (simp add: demo_Create env_entry_def)
  from h Create_environment_vector [where envMap = "[(''A'', ''2''), (''B'', ''3'')]"
      and ambient = "[''A=1'']" and k = "''A''", THEN conjunct2]
  have a: "effective_env ([''A=1''] @ map env_entry [(''A'', ''2''), (''B'', ''3'')]) ''A''
      = Some ''2''"
    by simp
  from h Create_environment_vector [where envMap = "[(''A'', ''2''), (''B'', ''3'')]"
      and ambient = "[''A=1'']" and k = "''B''", THEN conjunct2]
  have b: "effective_env ([''A=1''] @ map env_entry [(''A'', ''2''), (''B'', ''3'')]) ''B''
      = Some ''3''"
    by simp
  from a b c show ?thesis by blast
qed



text \<open>
  C6, as stated, fails for a path that is absent because a component before its last is a
  regular file. \<^verbatim>\<open>os.Stat\<close> then fails with \<^verbatim>\<open>ENOTDIR\<close>, of which
  \<^verbatim>\<open>os.IsNotExist\<close> does not hold: for the source directory \<open>main.k/sub\<close> below the
  file \<open>main.k\<close> the check passes, the tool is called with the absent path as its working
  directory, and the one error is of the kind ExecutionFailedError, not
  DirectoryNotFoundError.
\<close>

theorem Create_absent_below_file:
  "filepath_Abs demo_world ''main.k/sub'' = Inr ''/work/main.k/sub''
   \<and> absent (os_Stat demo_world ''/work/main.k/sub'')
   \<and> map error_kind (Diagnostics (fst (Create demo_resource demo_world
         (demo_request (demo_plan\<lparr>SourceDir := StringValue ''main.k/sub''\<rparr>)) new_Response)))
       = [Some ExecutionFailedError]
   \<and> last (snd (Create demo_resource demo_world
         (demo_request (demo_plan\<lparr>SourceDir := StringValue ''main.k/sub''\<rparr>)) new_Response))
       = CallCommand ''kcl'' [''-o'', ''out.json''] ''/work/main.k/sub''
           [''A=1'', ''A=2'', ''B=3''] 300000000000"
  by (simp add: Create_defs demo_defs error_kind_def ErrorDiagnostic_def)

text \<open>
  C6, amended. When the plan is decoded without error, the source directory resolves to
  an absolute path and \<^verbatim>\<open>os.Stat\<close> reports that the path does not exist (the error of
  which \<^verbatim>\<open>os.IsNotExist\<close> holds), Create ends with the error DirectoryNotFoundError
  that names the path; it has only resolved the path and asked for its status (it creates
  nothing and starts nothing), and the state of the response is unchanged. Nothing more
  is checked: whenever \<^verbatim>\<open>os.Stat\<close> reports anything else (a directory, a regular file,
  a component that is not a directory, another failure) the check passes, and with
  arguments and environment decoded without error the tool is started with that path as
  its working directory.
\<close>

theorem Create_directory_not_found:
  "(\<not> HasError (Diagnostics resp @ PlanGet_diags req)
      \<and> filepath_Abs w (ValueString (SourceDir (PlanGet_plan req))) = Inr absPath
      \<and> os_Stat w absPath = StatNotExist \<longrightarrow>
      Create r w req resp =
        (AddError (Append resp (PlanGet_diags req)) ''Directory Not Found''
           (''Source directory does not exist: '' @ absPath),
         [CallAbs (ValueString (SourceDir (PlanGet_plan req))), CallStat absPath])
      \<and> error_kind (last (Diagnostics (fst (Create r w req resp)))) = Some DirectoryNotFoundError
      \<and> State (fst (Create r w req resp)) = State resp)
   \<and> (\<not> HasError (Diagnostics resp @ PlanGet_diags req
           @ list_diags (Args (PlanGet_plan req)) @ map_diags (Environment (PlanGet_plan req)))
      \<and> filepath_Abs w (ValueString (SourceDir (PlanGet_plan req))) = Inr absPath
      \<and> \<not> IsNotExist (os_Stat w absPath) \<longrightarrow>
      last (snd (Create r w req resp)) =
        CallCommand (kclCommand_of r) (list_elements (Args (PlanGet_plan req))) absPath
          (os_Environ w @ map env_entry (map_elements (Environment (PlanGet_plan req))))
          (timeout_of (PlanGet_plan req)))"
proof (intro conjI impI)
  assume h: "\<not> HasError (Diagnostics resp @ PlanGet_diags req)
      \<and> filepath_Abs w (ValueString (SourceDir (PlanGet_plan req))) = Inr absPath
      \<and> os_Stat w absPath = StatNotExist"
  then show c: "Create r w req resp =
        (AddError (Append resp (PlanGet_diags req)) ''Directory Not Found''
           (''Source directory does not exist: '' @ absPath),
         [CallAbs (ValueString (SourceDir (PlanGet_plan req))), CallStat absPath])"
    by (simp add: Create_def Append_def Let_def)
  show "error_kind (last (Diagnostics (fst (Create r w req resp)))) = Some DirectoryNotFoundError"
    by (simp add: c AddError_def Append_def error_kind_def ErrorDiagnostic_def)
  show "State (fst (Create r w req resp)) = State resp"
    by (simp add: c AddError_def Append_def)
next
  assume h: "\<not> HasError (Diagnostics resp @ PlanGet_diags req
           @ list_diags (Args (PlanGet_plan req)) @ map_diags (Environment (PlanGet_plan req)))
      \<and> filepath_Abs w (ValueString (SourceDir (PlanGet_plan req))) = Inr absPath
      \<and> \<not> IsNotExist (os_Stat w absPath)"
  then have "\<not> IsNotExist (os_Stat w absPath)" by simp
  with h Create_passes_to_exec [of resp req w absPath r]
  obtain resp1 calls1 where "Create r w req resp =
             Create_exec w (PlanGet_plan req) absPath (kclCommand_of r)
               (list_elements (Args (PlanGet_plan req)))
               (os_Environ w @ map env_entry (map_elements (Environment (PlanGet_plan req))))
               resp1 calls1"
    by blast
  then show "last (snd (Create r w req resp)) =
        CallCommand (kclCommand_of r) (list_elements (Args (PlanGet_plan req))) absPath
          (os_Environ w @ map env_entry (map_elements (Environment (PlanGet_plan req))))
          (timeout_of (PlanGet_plan req))"
    by (simp add: Create_exec_calls)
qed

theorem Create_directory_not_found_witness:
  "Create demo_resource demo_world
     (demo_request (demo_plan\<lparr>SourceDir := StringValue ''missing''\<rparr>)) new_Response =
     (\<lparr>Diagnostics = [ErrorDiagnostic ''Directory Not Found''
          ''Source directory does not exist: /work/missing''], State = None\<rparr>,
      [CallAbs ''missing'', CallStat ''/work/missing''])
   \<and> last (snd (Create demo_resource demo_world
        (demo_request (demo_plan\<lparr>SourceDir := StringValue ''main.k''\<rparr>)) new_Response)) =
      CallCommand ''kcl'' [''-o'', ''out.json''] ''/work/main.k'' [''A=1'', ''A=2'', ''B=3'']
        300000000000"
proof -
  let ?req1 = "demo_request (demo_plan\<lparr>SourceDir := StringValue ''missing''\<rparr>)"
  let ?req2 = "demo_request (demo_plan\<lparr>SourceDir := StringValue ''main.k''\<rparr>)"
  have h1: "\<not> HasError (Diagnostics new_Response @ PlanGet_diags ?req1)
      \<and> filepath_Abs demo_world (ValueString (SourceDir (PlanGet_plan ?req1))) = Inr ''/work/missing''
      \<and> os_Stat demo_world ''/work/missing'' = StatNotExist"
    by (simp add: demo_defs HasError_def)
  have h2: "\<not> HasError (Diagnostics new_Response @ PlanGet_diags ?req2
           @ list_diags (Args (PlanGet_plan ?req2)) @ map_diags (Environment (PlanGet_plan ?req2)))
      \<and> filepath_Abs demo_world (ValueString (SourceDir (PlanGet_plan ?req2))) = Inr ''/work/main.k''
      \<and> \<not> IsNotExist (os_Stat demo_world ''/work/main.k'')"
    by (simp add: demo_defs HasError_def)
  from h1 Create_directory_not_found [of new_Response ?req1 demo_world "''/work/missing''" demo_resource]
  have a: "Create demo_resource demo_world ?req1 new_Response =
        (AddError (Append new_Response (PlanGet_diags ?req1)) ''Directory Not Found''
           (''Source directory does not exist: '' @ ''/work/missing''),
         [CallAbs (ValueString (SourceDir (PlanGet_plan ?req1))), CallStat ''/work/missing''])"
    by blast
  from h2 Create_directory_not_found [of new_Response ?req2 demo_world "''/work/main.k''" demo_resource]
  have b: "last (snd (Create demo_resource demo_world ?req2 new_Response)) =
        CallCommand (kclCommand_of demo_resource) (list_elements (Args (PlanGet_plan ?req2)))
          ''/work/main.k''
          (os_Environ demo_world @ map env_entry (map_elements (Environment (PlanGet_plan ?req2))))
          (timeout_of (PlanGet_plan ?req2))"
    by blast
  show ?thesis
    unfolding a b
    by (simp add: demo_defs AddError_def Append_def kclCommand_of_def env_entry_def
          timeout_of_def Second_def)
qed



text \<open>
  C8. When the timeout attribute is null, the timeout is 300 seconds (300 000 000 000
  nanoseconds), and that is the timeout under which the tool is started.
\<close>

theorem Create_default_timeout:
  "(Timeout plan = Int64Null \<longrightarrow>
      timeout_of plan = 300 * Second \<and> sint (timeout_of plan) = 300 * 1000000000)
   \<and> (Timeout (PlanGet_plan req) = Int64Null
        \<and> CallCommand c a d e t \<in> set (snd (Create r w req resp)) \<longrightarrow>
      sint t = 300 * 1000000000)"
proof (intro conjI impI)
  assume "Timeout plan = Int64Null"
  then show "timeout_of plan = 300 * Second" "sint (timeout_of plan) = 300 * 1000000000"
    by (simp_all add: timeout_of_def Second_def)
next
  assume h: "Timeout (PlanGet_plan req) = Int64Null
        \<and> CallCommand c a d e t \<in> set (snd (Create r w req resp))"
  with Create_reaches_exec [of c a d e t r w req resp]
  have "t = timeout_of (PlanGet_plan req)" by blast
  with h show "sint t = 300 * 1000000000"
    by (simp add: timeout_of_def Second_def)
qed

theorem Create_default_timeout_witness:
  "Timeout demo_plan = Int64Null \<and> sint (timeout_of demo_plan) = 300 * 1000000000
   \<and> CallCommand ''kcl'' [''-o'', ''out.json''] ''/work/kcl-configs''
        [''A=1'', ''A=2'', ''B=3''] 300000000000
      \<in> set (snd (Create demo_resource demo_world (demo_request demo_plan) new_Response))
   \<and> sint (300000000000 :: 64 word) = 300 * 1000000000"
proof -
  have n: "Timeout demo_plan = Int64Null" by (simp add: demo_plan_def)
  have n': "Timeout (PlanGet_plan (demo_request demo_plan)) = Int64Null"
    by (simp add: demo_plan_def demo_request_def)
  have c: "CallCommand ''kcl'' [''-o'', ''out.json''] ''/work/kcl-configs''
        [''A=1'', ''A=2'', ''B=3''] 300000000000
      \<in> set (snd (Create demo_resource demo_world (demo_request demo_plan) new_Response))"
    by (simp add: demo_Create)
  from n n' c
    Create_default_timeout [of demo_plan "demo_request demo_plan" "''kcl''"
      "[''-o'', ''out.json'']" "''/work/kcl-configs''" "[''A=1'', ''A=2'', ''B=3'']"
      300000000000 demo_resource demo_world new_Response]
  show ?thesis by blast
qed

text \<open>
  C9. Every \<^verbatim>\<open>Update\<close> fails: whatever the request and the response it starts from, the
  response gains exactly one diagnostic, an error of the kind UnsupportedOperationError
  that says that changes require replacement, so the diagnostics have an error; and the
  state held by the response (the prior state) is returned as it was.
\<close>

theorem Update_unsupported:
  "Diagnostics (Update r req resp) =
     Diagnostics resp @
       [ErrorDiagnostic ''Update Not Supported''
          ''KCL execution resource does not support updates - changes require replacement'']
   \<and> error_kind (last (Diagnostics (Update r req resp))) = Some UnsupportedOperationError
   \<and> HasError (Diagnostics (Update r req resp))
   \<and> State (Update r req resp) = State resp"
  by (simp add: Update_def AddError_def HasError_def error_kind_def ErrorDiagnostic_def)

text \<open>
  C10, as stated, fails where the product of the seconds and 1 000 000 000 leaves 64 bits. The
  negative timeout of -9223372037 seconds becomes a positive duration, the context is not
  expired and the Create succeeds.
\<close>

theorem Create_negative_timeout_succeeds:
  "sint (- 9223372037 :: 64 word) < 0
   \<and> 0 < sint (timeout_of (demo_plan\<lparr>Timeout := Int64Value (- 9223372037)\<rparr>))
   \<and> \<not> HasError (Diagnostics (fst (Create demo_resource demo_world
         (demo_request (demo_plan\<lparr>Timeout := Int64Value (- 9223372037)\<rparr>)) new_Response)))
   \<and> State (fst (Create demo_resource demo_world
         (demo_request (demo_plan\<lparr>Timeout := Int64Value (- 9223372037)\<rparr>)) new_Response)) \<noteq> None"
  by (simp add: Create_defs demo_defs)

text \<open>
  C10, amended. A timeout attribute that is set is never replaced by the default: the
  duration is its value times one second in 64-bit arithmetic. For a value between
  -9223372036 and 9223372036 that is the declared number of seconds; when such a value
  is zero or negative the context has expired before the tool is started, so the Create
  ends with an error and the state of the response is unchanged.
\<close>

theorem Create_timeout_verbatim:
  "(Timeout plan = Int64Value v \<longrightarrow> timeout_of plan = v * Second)
   \<and> (Timeout plan = Int64Value v \<and> - 9223372036 \<le> sint v \<and> sint v \<le> 9223372036 \<longrightarrow>
        sint (timeout_of plan) = sint v * 1000000000)
   \<and> (Timeout (PlanGet_plan req) = Int64Value v \<and> - 9223372036 \<le> sint v \<and> sint v \<le> 0 \<longrightarrow>
        HasError (Diagnostics (fst (Create r w req resp)))
        \<and> State (fst (Create r w req resp)) = State resp)"
proof (intro conjI impI)
  assume "Timeout plan = Int64Value v"
  then show "timeout_of plan = v * Second" by (simp add: timeout_of_def)
next
  assume "Timeout plan = Int64Value v \<and> - 9223372036 \<le> sint v \<and> sint v \<le> 9223372036"
  then show "sint (timeout_of plan) = sint v * 1000000000"
    by (simp add: timeout_of_def sint_seconds)
next
  assume h: "Timeout (PlanGet_plan req) = Int64Value v \<and> - 9223372036 \<le> sint v \<and> sint v \<le> 0"
  then have neg: "sint (timeout_of (PlanGet_plan req)) \<le> 0"
    by (simp add: timeout_of_def sint_seconds)
  have "HasError (Diagnostics (fst (Create r w req resp)))
        \<and> State (fst (Create r w req resp)) = State resp"
  proof (cases "list_ex is_CallCommand (snd (Create r w req resp))")
    case False
    then show ?thesis by (rule Create_without_exec)
  next
    case True
    then obtain x where x: "x \<in> set (snd (Create r w req resp))" "is_CallCommand x"
      by (auto simp: list_ex_iff)
    obtain c a d e t where xc: "x = CallCommand c a d e t"
      using x(2) by (cases x) auto
    from Create_reaches_exec [of c a d e t r w req resp] x(1) xc
    obtain resp1 calls1 where
      eq: "Create r w req resp = Create_exec w (PlanGet_plan req) d c a e resp1 calls1"
      and st: "State resp1 = State resp"
      by blast
    from CombinedOutput_expired [OF neg, of "exec_Command w c a d e"]
    obtain out err where
      "CombinedOutput (exec_Command w c a d e) (timeout_of (PlanGet_plan req)) = (out, Some err)"
      by blast
    from Create_exec_failure [OF this, of resp1 calls1] st show ?thesis
      by (simp add: eq AddError_def HasError_ErrorDiagnostic)
  qed
  then show "HasError (Diagnostics (fst (Create r w req resp)))"
    and "State (fst (Create r w req resp)) = State resp"
    by simp_all
qed

theorem Create_timeout_verbatim_witness:
  "timeout_of (demo_plan\<lparr>Timeout := Int64Value 0\<rparr>) = 0
   \<and> sint (timeout_of (demo_plan\<lparr>Timeout := Int64Value (- 5)\<rparr>)) = - 5000000000
   \<and> HasError (Diagnostics (fst (Create demo_resource demo_world
         (demo_request (demo_plan\<lparr>Timeout := Int64Value 0\<rparr>)) new_Response)))
   \<and> State (fst (Create demo_resource demo_world
         (demo_request (demo_plan\<lparr>Timeout := Int64Value 0\<rparr>)) new_Response)) = None"
proof -
  have a: "Timeout (demo_plan\<lparr>Timeout := Int64Value 0\<rparr>) = Int64Value 0" by simp
  have b: "Timeout (demo_plan\<lparr>Timeout := Int64Value (- 5)\<rparr>) = Int64Value (- 5)
      \<and> - 9223372036 \<le> sint (- 5 :: 64 word) \<and> sint (- 5 :: 64 word) \<le> 9223372036"
    by simp
  have c: "Timeout (PlanGet_plan (demo_request (demo_plan\<lparr>Timeout := Int64Value 0\<rparr>))) = Int64Value 0
      \<and> - 9223372036 \<le> sint (0 :: 64 word) \<and> sint (0 :: 64 word) \<le> 0"
    by (simp add: demo_request_def)
  from a Create_timeout_verbatim [where plan = "demo_plan\<lparr>Timeout := Int64Value 0\<rparr>" and v = 0,
      THEN conjunct1]
  have 1: "timeout_of (demo_plan\<lparr>Timeout := Int64Value 0\<rparr>) = 0" by simp
  from b Create_timeout_verbatim [where plan = "demo_plan\<lparr>Timeout := Int64Value (- 5)\<rparr>"
      and v = "- 5", THEN conjunct2, THEN conjunct1]
  have 2: "sint (timeout_of (demo_plan\<lparr>Timeout := Int64Value (- 5)\<rparr>)) = - 5000000000"
    by simp
  from c Create_timeout_verbatim [where req = "demo_request (demo_plan\<lparr>Timeout := Int64Value 0\<rparr>)"
      and v = 0 and r = demo_resource and w = demo_world and resp = new_Response,
      THEN conjunct2, THEN conjunct2]
  have 3: "HasError (Diagnostics (fst (Create demo_resource demo_world
         (demo_request (demo_plan\<lparr>Timeout := Int64Value 0\<rparr>)) new_Response)))
   \<and> State (fst (Create demo_resource demo_world
         (demo_request (demo_plan\<lparr>Timeout := Int64Value 0\<rparr>)) new_Response)) = State new_Response"
    by blast
  from 1 2 3 show ?thesis by (simp add: new_Response_def)
qed

end
